theory Spec2Isabelle
  imports Main "HOL-Library.Sublist"
begin

section \<open>The todo list of \<open>todo_list.py\<close>\<close>

text \<open>
  The program is one class, \<open>TodoList\<close>, with a single field \<open>tasks\<close> (a Python list)
  and three methods that mutate the list and write to standard output, followed by a
  fixed script. A task is text: a Python \<open>str\<close>, that is a sequence of Unicode code
  points. The state of the embedding is the field, everything written to standard output
  so far, and what the encoding of standard output can encode.
\<close>

subsection \<open>Text\<close>

text \<open>A Python \<open>str\<close> is the list of its code points, each below \<open>0x110000\<close>; the
  statements below hold for every list of natural numbers. The function \<open>str\<close> gives the
  text of a string literal of the source; all of them are ASCII.\<close>

type_synonym py_str = "nat list"

type_synonym task = py_str

definition str :: "string \<Rightarrow> py_str" where
  "str s = map of_char s"

abbreviation LF :: nat where
  "LF \<equiv> 10"

subsection \<open>State, errors and the builtins the methods call\<close>

text \<open>The field \<open>encodes\<close> says which code points beyond ASCII the encoding of standard
  output can encode. It is set by the environment of the process and no statement of the
  program changes it.\<close>

record todo_list =
  tasks :: "task list"
  stdout :: py_str
  encodes :: "nat \<Rightarrow> bool"

text \<open>UTF-8, the default, encodes every code point but the surrogates; ASCII encodes
  nothing beyond ASCII.\<close>

definition utf_8 :: "nat \<Rightarrow> bool" where
  "utf_8 c = (c < 0xD800 \<or> (0xDFFF < c \<and> c < 0x110000))"

definition ascii :: "nat \<Rightarrow> bool" where
  "ascii c = (c < 0x80)"

text \<open>The exceptions the statements of the class can raise: \<open>ValueError\<close> is raised by
  \<open>list.remove\<close> on a value that is not in the list, \<open>UnicodeEncodeError\<close> by \<open>print\<close>
  on a text that standard output cannot encode. (In Python the second is a subclass of
  the first; the two constructors keep apart which statement raised.) A call that raises
  leaves the state as it is at that moment.\<close>

datatype error = ValueError | UnicodeEncodeError

type_synonym result = "(error \<times> todo_list) + todo_list"

text \<open>The state after a call, whether it returned or raised.\<close>

definition state_of :: "result \<Rightarrow> todo_list" where
  "state_of r = (case r of Inl (e, self) \<Rightarrow> self | Inr self \<Rightarrow> self)"

text \<open>Every encoding of standard output encodes ASCII, the line feed included.\<close>

definition can_write :: "todo_list \<Rightarrow> py_str \<Rightarrow> bool" where
  "can_write self s = list_all (\<lambda>c. c < 0x80 \<or> encodes self c) s"

text \<open>\<open>print(x)\<close> writes the text and then a line feed. The text is encoded as a whole
  before anything is written: when it cannot be encoded, nothing is written and
  \<open>UnicodeEncodeError\<close> is raised.\<close>

definition print :: "py_str \<Rightarrow> todo_list \<Rightarrow> result" where
  "print s self =
     (if can_write self s then Inr (self\<lparr>stdout := stdout self @ s @ [LF]\<rparr>)
      else Inl (UnicodeEncodeError, self))"

text \<open>\<open>xs.remove(x)\<close>: delete the first item equal to \<open>x\<close>; \<open>ValueError\<close> when there is
  none.\<close>

fun list_remove :: "'a list \<Rightarrow> 'a \<Rightarrow> error + 'a list" where
  "list_remove [] x = Inl ValueError"
| "list_remove (y # ys) x =
     (if y = x then Inr ys
      else (case list_remove ys x of
              Inl e \<Rightarrow> Inl e
            | Inr zs \<Rightarrow> Inr (y # zs)))"

text \<open>Statements in sequence: an exception ends the run.\<close>

definition and_then :: "(error \<times> todo_list) + 'a \<Rightarrow> ('a \<Rightarrow> (error \<times> todo_list) + 'b) \<Rightarrow>
    (error \<times> todo_list) + 'b" where
  "and_then r f = (case r of Inl e \<Rightarrow> Inl e | Inr x \<Rightarrow> f x)"

subsection \<open>The class\<close>

text \<open>\<open>__init__\<close>: a fresh object has no tasks. The arguments are the encoding of standard
  output and what the process has written to it before.\<close>

definition init :: "(nat \<Rightarrow> bool) \<Rightarrow> py_str \<Rightarrow> todo_list" where
  "init enc out = \<lparr>tasks = [], stdout = out, encodes = enc\<rparr>"

text \<open>A method call either raises or returns, with the updated state in both cases.\<close>

definition add_task :: "todo_list \<Rightarrow> task \<Rightarrow> result" where
  "add_task self task =
     print (str ''Added task: '' @ task) (self\<lparr>tasks := tasks self @ [task]\<rparr>)"

definition remove_task :: "todo_list \<Rightarrow> task \<Rightarrow> result" where
  "remove_task self task =
     (if task \<in> set (tasks self) then
        (case list_remove (tasks self) task of
           Inl e \<Rightarrow> Inl (e, self)
         | Inr ts \<Rightarrow> print (str ''Removed task: '' @ task) (self\<lparr>tasks := ts\<rparr>))
      else print (str ''Task not found: '' @ task) self)"

text \<open>The \<open>for\<close> loop of \<open>show_tasks\<close>, over the tasks still to be visited.\<close>

fun show_tasks_loop :: "task list \<Rightarrow> todo_list \<Rightarrow> result" where
  "show_tasks_loop [] self = Inr self"
| "show_tasks_loop (task # rest) self =
     and_then (print (str ''- '' @ task) self) (show_tasks_loop rest)"

definition show_tasks :: "todo_list \<Rightarrow> result" where
  "show_tasks self =
     and_then (print (str ''Todo List:'') self) (show_tasks_loop (tasks self))"

subsection \<open>The script\<close>

definition main :: "(nat \<Rightarrow> bool) \<Rightarrow> py_str \<Rightarrow> result" where
  "main enc out =
     and_then (add_task (init enc out) (str ''Buy groceries'')) (\<lambda>todo.
     and_then (add_task todo (str ''Pay bills'')) (\<lambda>todo.
     and_then (show_tasks todo) (\<lambda>todo.
     and_then (remove_task todo (str ''Pay bills'')) (\<lambda>todo.
     show_tasks todo))))"

subsection \<open>Runs of \<open>add_task\<close> calls\<close>

text \<open>Any number of \<open>add_task\<close> calls, one per element of the argument: as a sequence
  of statements, which an exception ends, and with every call carried out on the object
  as the call before left it, whether that call returned or raised.\<close>

fun add_tasks :: "todo_list \<Rightarrow> task list \<Rightarrow> result" where
  "add_tasks self [] = Inr self"
| "add_tasks self (task # rest) = and_then (add_task self task) (\<lambda>self'. add_tasks self' rest)"

fun add_tasks_each :: "todo_list \<Rightarrow> task list \<Rightarrow> todo_list" where
  "add_tasks_each self [] = self"
| "add_tasks_each self (task # rest) = add_tasks_each (state_of (add_task self task)) rest"

subsection \<open>Observations used by the statements\<close>

text \<open>What a call wrote: the part of standard output after what was there before.\<close>

definition written :: "todo_list \<Rightarrow> todo_list \<Rightarrow> py_str" where
  "written before after = drop (length (stdout before)) (stdout after)"

text \<open>The text \<open>show_tasks\<close> writes for one task, and for a list of them.\<close>

definition task_line :: "task \<Rightarrow> py_str" where
  "task_line task = str ''- '' @ task @ [LF]"

definition task_lines :: "task list \<Rightarrow> py_str" where
  "task_lines ts = concat (map task_line ts)"

text \<open>The lines of a text: the pieces that end at a line feed (and a last piece without
  one, when the text does not end with a line feed).\<close>

fun split_lines :: "py_str \<Rightarrow> py_str list" where
  "split_lines [] = []"
| "split_lines (c # cs) =
     (if c = LF then [] # split_lines cs
      else (case split_lines cs of
              [] \<Rightarrow> [[c]]
            | l # ls \<Rightarrow> (c # l) # ls))"

section \<open>Properties\<close>

subsection \<open>Helper facts\<close>

lemma state_of_simps:
  "state_of (Inr self) = self" "state_of (Inl (e, self)) = self"
  by (simp_all add: state_of_def)

lemma can_write_append: "can_write self (s @ s') = (can_write self s \<and> can_write self s')"
  by (simp add: can_write_def)

lemma can_write_updates:
  "can_write (self\<lparr>tasks := ts\<rparr>) = can_write self"
  "can_write (self\<lparr>stdout := out\<rparr>) = can_write self"
  by (rule ext, simp add: can_write_def)+

text \<open>The literals of the source are ASCII and hold no line feed.\<close>

lemma can_write_literals:
  "can_write self (str ''Added task: '')"
  "can_write self (str ''Removed task: '')"
  "can_write self (str ''Task not found: '')"
  "can_write self (str ''Todo List:'')"
  "can_write self (str ''- '')"
  by (simp_all add: can_write_def str_def)

lemma literals_one_line:
  "LF \<notin> set (str ''Todo List:'')" "LF \<notin> set (str ''- '')"
  by (simp_all add: str_def)

lemma add_task_eq:
  "add_task self t =
     (if can_write self t
      then Inr (self\<lparr>tasks := tasks self @ [t],
                     stdout := stdout self @ str ''Added task: '' @ t @ [LF]\<rparr>)
      else Inl (UnicodeEncodeError, self\<lparr>tasks := tasks self @ [t]\<rparr>))"
  by (simp add: add_task_def print_def can_write_append can_write_literals can_write_updates)

lemma show_tasks_loop_eq:
  "show_tasks_loop ts self =
     (if list_all (can_write self) ts
      then Inr (self\<lparr>stdout := stdout self @ task_lines ts\<rparr>)
      else Inl (UnicodeEncodeError,
             self\<lparr>stdout := stdout self @ task_lines (takeWhile (can_write self) ts)\<rparr>))"
proof (induction ts arbitrary: self)
  case Nil
  show ?case by (simp add: task_lines_def)
next
  case (Cons t ts)
  show ?case
  proof (cases "can_write self t")
    case True
    then have "print (str ''- '' @ t) self = Inr (self\<lparr>stdout := stdout self @ task_line t\<rparr>)"
      by (simp add: print_def can_write_append can_write_literals task_line_def)
    with True show ?thesis
      by (simp add: and_then_def Cons.IH can_write_updates task_lines_def)
  next
    case False
    then have "print (str ''- '' @ t) self = Inl (UnicodeEncodeError, self)"
      by (simp add: print_def can_write_append)
    with False show ?thesis
      by (simp add: and_then_def task_lines_def)
  qed
qed

lemma show_tasks_eq:
  "show_tasks self =
     (if list_all (can_write self) (tasks self)
      then Inr (self\<lparr>stdout := stdout self @ str ''Todo List:'' @ [LF] @ task_lines (tasks self)\<rparr>)
      else Inl (UnicodeEncodeError,
             self\<lparr>stdout := stdout self @ str ''Todo List:'' @ [LF] @
               task_lines (takeWhile (can_write self) (tasks self))\<rparr>))"
  by (simp add: show_tasks_def print_def can_write_literals and_then_def show_tasks_loop_eq
      can_write_updates)

lemma takeWhile_all: "list_all P xs \<Longrightarrow> takeWhile P xs = xs"
  by (simp add: list_all_iff)

lemma show_tasks_state:
  "state_of (show_tasks self) =
     self\<lparr>stdout := stdout self @ str ''Todo List:'' @ [LF] @
       task_lines (takeWhile (can_write self) (tasks self))\<rparr>"
  by (simp add: show_tasks_eq state_of_simps takeWhile_all)

lemma written_append: "stdout after = stdout before @ s \<Longrightarrow> written before after = s"
  by (simp add: written_def)

text \<open>\<open>list.remove\<close> raises exactly on a value that is not in the list, and otherwise
  deletes the first occurrence.\<close>

lemma list_remove_ValueError: "list_remove xs x = Inl ValueError \<longleftrightarrow> x \<notin> set xs"
  by (induction xs) (auto split: sum.splits)

lemma list_remove_first:
  "x \<notin> set ys \<Longrightarrow> list_remove (ys @ x # zs) x = Inr (ys @ zs)"
  by (induction ys) auto

lemma list_remove_split:
  assumes "x \<in> set xs"
  shows "\<exists>ys zs. xs = ys @ x # zs \<and> x \<notin> set ys \<and> list_remove xs x = Inr (ys @ zs)"
proof -
  from split_list_first [OF assms] obtain ys zs where "xs = ys @ x # zs" and "x \<notin> set ys"
    by blast
  then show ?thesis
    using list_remove_first [of x ys zs] by blast
qed

lemma remove_task_first:
  assumes "tasks self = ys @ t # zs" and "t \<notin> set ys"
  shows "remove_task self t =
           (if can_write self t
            then Inr (self\<lparr>tasks := ys @ zs,
                           stdout := stdout self @ str ''Removed task: '' @ t @ [LF]\<rparr>)
            else Inl (UnicodeEncodeError, self\<lparr>tasks := ys @ zs\<rparr>))"
  using assms
  by (simp add: remove_task_def list_remove_first print_def can_write_append
      can_write_literals can_write_updates)

lemma remove_task_missing:
  "t \<notin> set (tasks self) \<Longrightarrow>
     remove_task self t =
       (if can_write self t
        then Inr (self\<lparr>stdout := stdout self @ str ''Task not found: '' @ t @ [LF]\<rparr>)
        else Inl (UnicodeEncodeError, self))"
  by (simp add: remove_task_def print_def can_write_append can_write_literals)

lemma add_tasks_each_tasks: "tasks (add_tasks_each self ts) = tasks self @ ts"
  by (induction ts arbitrary: self) (simp_all add: add_task_eq state_of_simps)

lemma add_tasks_returns:
  "list_all (can_write self) ts \<Longrightarrow> add_tasks self ts = Inr (add_tasks_each self ts)"
proof (induction ts arbitrary: self)
  case Nil
  show ?case by simp
next
  case (Cons t ts)
  let ?s = "self\<lparr>tasks := tasks self @ [t],
                  stdout := stdout self @ str ''Added task: '' @ t @ [LF]\<rparr>"
  from Cons.prems have t: "can_write self t" and ts: "list_all (can_write ?s) ts"
    by (simp_all add: can_write_updates)
  from t have "add_task self t = Inr ?s" by (simp add: add_task_eq)
  with Cons.IH [OF ts] show ?case
    by (simp add: and_then_def state_of_simps)
qed

text \<open>Reading a text line by line.\<close>

lemma split_lines_line:
  "LF \<notin> set l \<Longrightarrow> split_lines (l @ LF # rest) = l # split_lines rest"
  by (induction l) auto

lemma split_lines_task_lines:
  "list_all (\<lambda>t. LF \<notin> set t) ts \<Longrightarrow>
     split_lines (task_lines ts) = map (\<lambda>t. str ''- '' @ t) ts"
proof (induction ts)
  case Nil
  show ?case by (simp add: task_lines_def)
next
  case (Cons t ts)
  then have "LF \<notin> set (str ''- '' @ t)" by (simp add: literals_one_line)
  from split_lines_line [OF this, of "task_lines ts"]
  have "split_lines (task_lines (t # ts)) = (str ''- '' @ t) # split_lines (task_lines ts)"
    by (simp add: task_lines_def task_line_def)
  with Cons show ?case by simp
qed

lemma split_lines_listing:
  assumes "list_all (\<lambda>t. LF \<notin> set t) ts"
  shows "split_lines (str ''Todo List:'' @ [LF] @ task_lines ts) =
           str ''Todo List:'' # map (\<lambda>t. str ''- '' @ t) ts"
  using split_lines_line [OF literals_one_line(1), of "task_lines ts"]
    split_lines_task_lines [OF assms]
  by simp

subsection \<open>Adding\<close>

text \<open>
  C3, as the code has it. For every state and every task \<open>t\<close>, \<open>add_task\<close> appends
  \<open>t\<close> at the end of the task sequence, whether the call returns or raises. When standard
  output can encode \<open>t\<close>, the call returns and has written the confirmation line
  \<open>Added task: t\<close>. When it cannot, \<open>print\<close> raises \<open>UnicodeEncodeError\<close> after the
  append, and nothing is written.
\<close>

theorem add_task_appends:
  "tasks (state_of (add_task self t)) = tasks self @ [t] \<and>
   (can_write self t \<longrightarrow>
      add_task self t =
        Inr (self\<lparr>tasks := tasks self @ [t],
                  stdout := stdout self @ str ''Added task: '' @ t @ [LF]\<rparr>)) \<and>
   (\<not> can_write self t \<longrightarrow>
      add_task self t = Inl (UnicodeEncodeError, self\<lparr>tasks := tasks self @ [t]\<rparr>))"
  by (simp add: add_task_eq state_of_simps)

theorem add_task_appends_witness:
  "can_write \<lparr>tasks = [[97]], stdout = [], encodes = utf_8\<rparr> [98] \<and>
   add_task \<lparr>tasks = [[97]], stdout = [], encodes = utf_8\<rparr> [98] =
     Inr \<lparr>tasks = [[97], [98]], stdout = str ''Added task: '' @ [98, LF], encodes = utf_8\<rparr> \<and>
   \<not> can_write \<lparr>tasks = [[97]], stdout = [], encodes = utf_8\<rparr> [0xD800] \<and>
   add_task \<lparr>tasks = [[97]], stdout = [], encodes = utf_8\<rparr> [0xD800] =
     Inl (UnicodeEncodeError, \<lparr>tasks = [[97], [0xD800]], stdout = [], encodes = utf_8\<rparr>)"
proof -
  let ?s = "\<lparr>tasks = [[97]], stdout = [], encodes = utf_8\<rparr>"
  have yes: "can_write ?s [98]" by (simp add: can_write_def)
  have no: "\<not> can_write ?s [0xD800]" by (simp add: can_write_def utf_8_def)
  from add_task_appends [of ?s "[98]"] yes
  have "add_task ?s [98] =
      Inr \<lparr>tasks = [[97], [98]], stdout = str ''Added task: '' @ [98, LF], encodes = utf_8\<rparr>"
    by simp
  moreover from add_task_appends [of ?s "[0xD800]"] no
  have "add_task ?s [0xD800] =
      Inl (UnicodeEncodeError, \<lparr>tasks = [[97], [0xD800]], stdout = [], encodes = utf_8\<rparr>)"
    by simp
  ultimately show ?thesis using yes no by blast
qed

text \<open>The claim as worded, that \<open>add_task\<close> always succeeds and writes its notice, fails
  for the task that is the single code point U+D800 on a UTF-8 standard output: the task
  is appended, then \<open>print\<close> raises, and no notice is written.\<close>

theorem add_task_always_succeeds_counterexample:
  "add_task \<lparr>tasks = [], stdout = [], encodes = utf_8\<rparr> [0xD800] =
     Inl (UnicodeEncodeError, \<lparr>tasks = [[0xD800]], stdout = [], encodes = utf_8\<rparr>)"
  by (simp add: add_task_def print_def can_write_def utf_8_def str_def)

text \<open>
  C4. After any finite sequence of \<open>add_task\<close> calls on a freshly constructed list, with
  no removal in between, the list has as many tasks as there were calls; this holds for
  the object whether or not a call raised in \<open>print\<close>, since the append comes first. When
  standard output can encode every task, the calls as a sequence of statements all
  return, and the list then has as many tasks as there were calls.
\<close>

theorem add_tasks_length:
  "length (tasks (add_tasks_each (init enc out) ts)) = length ts \<and>
   (list_all (can_write (init enc out)) ts \<longrightarrow>
      (\<exists>self'. add_tasks (init enc out) ts = Inr self' \<and> length (tasks self') = length ts))"
proof -
  have each: "length (tasks (add_tasks_each (init enc out) ts)) = length ts"
    by (simp add: add_tasks_each_tasks init_def)
  have "add_tasks (init enc out) ts = Inr (add_tasks_each (init enc out) ts)"
    if "list_all (can_write (init enc out)) ts"
    using that by (rule add_tasks_returns)
  with each show ?thesis by simp
qed

theorem add_tasks_length_witness:
  "list_all (can_write (init utf_8 [])) [[97], [233], [97]] \<and>
   length (tasks (add_tasks_each (init utf_8 []) [[97], [233], [97]])) = length [[97], [233], [97::nat]] \<and>
   (\<exists>self'. add_tasks (init utf_8 []) [[97], [233], [97]] = Inr self' \<and>
      length (tasks self') = length [[97], [233], [97::nat]])"
proof -
  have h: "list_all (can_write (init utf_8 [])) [[97], [233], [97]]"
    by (simp add: can_write_def init_def utf_8_def)
  from add_tasks_length [of utf_8 "[]" "[[97], [233], [97]]"] h show ?thesis by blast
qed

subsection \<open>Removing\<close>

text \<open>
  C1, as the code has it. When \<open>t\<close> occurs in the list, \<open>remove_task\<close> deletes the first
  element equal to \<open>t\<close> and nothing else (the elements before and after it stay, later
  occurrences of \<open>t\<close> included), so the list is one shorter and holds one occurrence of
  \<open>t\<close> less; this holds whether the call returns or raises. When standard output can
  encode \<open>t\<close>, the call returns and has written the confirmation line \<open>Removed task: t\<close>.
  When it cannot, \<open>print\<close> raises \<open>UnicodeEncodeError\<close> after the deletion, and nothing
  is written.
\<close>

theorem remove_task_present:
  assumes "t \<in> set (tasks self)"
  shows "\<exists>ys zs.
           tasks self = ys @ t # zs \<and> t \<notin> set ys \<and>
           tasks (state_of (remove_task self t)) = ys @ zs \<and>
           Suc (length (tasks (state_of (remove_task self t)))) = length (tasks self) \<and>
           Suc (count_list (tasks (state_of (remove_task self t))) t) =
             count_list (tasks self) t \<and>
           (can_write self t \<longrightarrow>
              remove_task self t =
                Inr (self\<lparr>tasks := ys @ zs,
                          stdout := stdout self @ str ''Removed task: '' @ t @ [LF]\<rparr>)) \<and>
           (\<not> can_write self t \<longrightarrow>
              remove_task self t = Inl (UnicodeEncodeError, self\<lparr>tasks := ys @ zs\<rparr>))"
proof -
  from split_list_first [OF assms] obtain ys zs
    where d: "tasks self = ys @ t # zs" "t \<notin> set ys"
    by blast
  note r = remove_task_first [OF d]
  have "tasks (state_of (remove_task self t)) = ys @ zs"
    by (simp add: r state_of_simps)
  moreover have "Suc (length (tasks (state_of (remove_task self t)))) = length (tasks self)"
    using d(1) by (simp add: r state_of_simps)
  moreover have "Suc (count_list (tasks (state_of (remove_task self t))) t) =
      count_list (tasks self) t"
    using d by (simp add: r state_of_simps)
  moreover have "can_write self t \<longrightarrow>
      remove_task self t =
        Inr (self\<lparr>tasks := ys @ zs,
                  stdout := stdout self @ str ''Removed task: '' @ t @ [LF]\<rparr>)"
    by (simp add: r)
  moreover have "\<not> can_write self t \<longrightarrow>
      remove_task self t = Inl (UnicodeEncodeError, self\<lparr>tasks := ys @ zs\<rparr>)"
    by (simp add: r)
  ultimately show ?thesis
    using d by blast
qed

theorem remove_task_present_witness:
  "[97] \<in> set (tasks \<lparr>tasks = [[98], [97], [99], [97]], stdout = [], encodes = utf_8\<rparr>) \<and>
   can_write \<lparr>tasks = [[98], [97], [99], [97]], stdout = [], encodes = utf_8\<rparr> [97] \<and>
   remove_task \<lparr>tasks = [[98], [97], [99], [97]], stdout = [], encodes = utf_8\<rparr> [97] =
     Inr \<lparr>tasks = [[98], [99], [97]], stdout = str ''Removed task: '' @ [97, LF],
          encodes = utf_8\<rparr> \<and>
   (\<exists>ys zs.
      tasks \<lparr>tasks = [[98], [97], [99], [97]], stdout = [], encodes = utf_8\<rparr> = ys @ [97] # zs \<and>
      [97] \<notin> set ys \<and>
      remove_task \<lparr>tasks = [[98], [97], [99], [97]], stdout = [], encodes = utf_8\<rparr> [97] =
        Inr (\<lparr>tasks = [[98], [97], [99], [97]], stdout = [], encodes = utf_8\<rparr>
              \<lparr>tasks := ys @ zs,
               stdout := stdout \<lparr>tasks = [[98], [97], [99], [97]], stdout = [], encodes = utf_8\<rparr> @
                 str ''Removed task: '' @ [97] @ [LF]\<rparr>)) \<and>
   [0xD800] \<in> set (tasks \<lparr>tasks = [[97], [0xD800]], stdout = [], encodes = utf_8\<rparr>) \<and>
   \<not> can_write \<lparr>tasks = [[97], [0xD800]], stdout = [], encodes = utf_8\<rparr> [0xD800] \<and>
   (\<exists>ys zs.
      tasks \<lparr>tasks = [[97], [0xD800]], stdout = [], encodes = utf_8\<rparr> = ys @ [0xD800] # zs \<and>
      [0xD800] \<notin> set ys \<and>
      remove_task \<lparr>tasks = [[97], [0xD800]], stdout = [], encodes = utf_8\<rparr> [0xD800] =
        Inl (UnicodeEncodeError,
          \<lparr>tasks = [[97], [0xD800]], stdout = [], encodes = utf_8\<rparr>\<lparr>tasks := ys @ zs\<rparr>))"
proof -
  let ?s = "\<lparr>tasks = [[98], [97], [99], [97]], stdout = [], encodes = utf_8\<rparr>"
  let ?r = "\<lparr>tasks = [[97], [0xD800]], stdout = [], encodes = utf_8\<rparr>"
  have h: "[97] \<in> set (tasks ?s)" by simp
  have w: "can_write ?s [97]" by (simp add: can_write_def)
  have c: "remove_task ?s [97] =
      Inr \<lparr>tasks = [[98], [99], [97]], stdout = str ''Removed task: '' @ [97, LF],
           encodes = utf_8\<rparr>"
    by (simp add: remove_task_def print_def can_write_def str_def)
  have h': "[0xD800] \<in> set (tasks ?r)" by simp
  have no: "\<not> can_write ?r [0xD800]" by (simp add: can_write_def utf_8_def)
  from remove_task_present [OF h] w
  have first: "\<exists>ys zs.
      tasks ?s = ys @ [97] # zs \<and> [97] \<notin> set ys \<and>
      remove_task ?s [97] =
        Inr (?s\<lparr>tasks := ys @ zs,
                 stdout := stdout ?s @ str ''Removed task: '' @ [97] @ [LF]\<rparr>)"
    by blast
  from remove_task_present [OF h'] no
  have second: "\<exists>ys zs.
      tasks ?r = ys @ [0xD800] # zs \<and> [0xD800] \<notin> set ys \<and>
      remove_task ?r [0xD800] = Inl (UnicodeEncodeError, ?r\<lparr>tasks := ys @ zs\<rparr>)"
    by blast
  from h w c first h' no second show ?thesis by blast
qed

text \<open>The claim as worded, that the confirmation notice is written for every task in the
  list, fails for the task U+D800 on a UTF-8 standard output: the element is deleted,
  then \<open>print\<close> raises, and no notice is written.\<close>

theorem remove_task_notice_counterexample:
  "remove_task \<lparr>tasks = [[97], [0xD800]], stdout = [], encodes = utf_8\<rparr> [0xD800] =
     Inl (UnicodeEncodeError, \<lparr>tasks = [[97]], stdout = [], encodes = utf_8\<rparr>)"
  by (simp add: remove_task_def print_def can_write_def utf_8_def str_def)

text \<open>
  C2, as the code has it. When \<open>t\<close> does not occur in the list, \<open>remove_task\<close> leaves
  the task list as it was, whether the call returns or raises. When standard output can
  encode \<open>t\<close>, the call returns and has written the line \<open>Task not found: t\<close>. When it
  cannot, \<open>print\<close> raises \<open>UnicodeEncodeError\<close>, and nothing is written.
\<close>

theorem remove_task_absent:
  assumes "t \<notin> set (tasks self)"
  shows "tasks (state_of (remove_task self t)) = tasks self \<and>
         (can_write self t \<longrightarrow>
            remove_task self t =
              Inr (self\<lparr>stdout := stdout self @ str ''Task not found: '' @ t @ [LF]\<rparr>)) \<and>
         (\<not> can_write self t \<longrightarrow> remove_task self t = Inl (UnicodeEncodeError, self))"
  using assms by (simp add: remove_task_missing state_of_simps)

theorem remove_task_absent_witness:
  "[122] \<notin> set (tasks \<lparr>tasks = [[98], [97]], stdout = [], encodes = utf_8\<rparr>) \<and>
   can_write \<lparr>tasks = [[98], [97]], stdout = [], encodes = utf_8\<rparr> [122] \<and>
   tasks (state_of (remove_task \<lparr>tasks = [[98], [97]], stdout = [], encodes = utf_8\<rparr> [122])) =
     tasks \<lparr>tasks = [[98], [97]], stdout = [], encodes = utf_8\<rparr> \<and>
   remove_task \<lparr>tasks = [[98], [97]], stdout = [], encodes = utf_8\<rparr> [122] =
     Inr (\<lparr>tasks = [[98], [97]], stdout = [], encodes = utf_8\<rparr>
           \<lparr>stdout := stdout \<lparr>tasks = [[98], [97]], stdout = [], encodes = utf_8\<rparr> @
              str ''Task not found: '' @ [122] @ [LF]\<rparr>) \<and>
   [0xD800] \<notin> set (tasks \<lparr>tasks = [[98], [97]], stdout = [], encodes = utf_8\<rparr>) \<and>
   \<not> can_write \<lparr>tasks = [[98], [97]], stdout = [], encodes = utf_8\<rparr> [0xD800] \<and>
   remove_task \<lparr>tasks = [[98], [97]], stdout = [], encodes = utf_8\<rparr> [0xD800] =
     Inl (UnicodeEncodeError, \<lparr>tasks = [[98], [97]], stdout = [], encodes = utf_8\<rparr>)"
proof -
  let ?s = "\<lparr>tasks = [[98], [97]], stdout = [], encodes = utf_8\<rparr>"
  have h: "[122] \<notin> set (tasks ?s)" by simp
  have w: "can_write ?s [122]" by (simp add: can_write_def)
  have h': "[0xD800] \<notin> set (tasks ?s)" by simp
  have no: "\<not> can_write ?s [0xD800]" by (simp add: can_write_def utf_8_def)
  from remove_task_absent [OF h] remove_task_absent [OF h'] h w h' no show ?thesis by blast
qed

text \<open>The claim as worded, that the message is printed and no exception raised for every
  task not in the list, fails for the task U+D800 on a UTF-8 standard output: \<open>print\<close>
  raises and nothing is written.\<close>

theorem remove_task_not_found_counterexample:
  "remove_task \<lparr>tasks = [[97]], stdout = [], encodes = utf_8\<rparr> [0xD800] =
     Inl (UnicodeEncodeError, \<lparr>tasks = [[97]], stdout = [], encodes = utf_8\<rparr>)"
  by (simp add: remove_task_def print_def can_write_def utf_8_def str_def)

text \<open>
  C9, as the code has it. Inside \<open>remove_task\<close> the call of \<open>list.remove\<close> is reached
  only when the task is in the list, where \<open>list.remove\<close> does not raise; so
  \<open>remove_task\<close> never ends with the \<open>ValueError\<close> of \<open>list.remove\<close>. It returns
  normally on every state and every task that standard output can encode, and on the
  others it raises \<open>UnicodeEncodeError\<close> in \<open>print\<close>.
\<close>

theorem remove_task_total:
  "(t \<in> set (tasks self) \<longrightarrow> (\<exists>ts. list_remove (tasks self) t = Inr ts)) \<and>
   (\<forall>s. remove_task self t \<noteq> Inl (ValueError, s)) \<and>
   (can_write self t \<longrightarrow> (\<exists>self'. remove_task self t = Inr self')) \<and>
   (\<not> can_write self t \<longrightarrow> (\<exists>s. remove_task self t = Inl (UnicodeEncodeError, s)))"
proof (cases "t \<in> set (tasks self)")
  case True
  from list_remove_split [OF True] obtain ys zs where
    d: "tasks self = ys @ t # zs" "t \<notin> set ys" "list_remove (tasks self) t = Inr (ys @ zs)"
    by blast
  from remove_task_first [OF d(1,2)] d(3) show ?thesis by simp
next
  case False
  then show ?thesis by (simp add: remove_task_missing)
qed

theorem remove_task_total_witness:
  "[97] \<in> set (tasks \<lparr>tasks = [[98], [97]], stdout = [], encodes = ascii\<rparr>) \<and>
   can_write \<lparr>tasks = [[98], [97]], stdout = [], encodes = ascii\<rparr> [97] \<and>
   (\<exists>ts. list_remove (tasks \<lparr>tasks = [[98], [97]], stdout = [], encodes = ascii\<rparr>) [97] = Inr ts) \<and>
   (\<exists>self'. remove_task \<lparr>tasks = [[98], [97]], stdout = [], encodes = ascii\<rparr> [97] = Inr self') \<and>
   \<not> can_write \<lparr>tasks = [[98], [97]], stdout = [], encodes = ascii\<rparr> [233] \<and>
   (\<exists>s. remove_task \<lparr>tasks = [[98], [97]], stdout = [], encodes = ascii\<rparr> [233] =
      Inl (UnicodeEncodeError, s))"
proof -
  let ?s = "\<lparr>tasks = [[98], [97]], stdout = [], encodes = ascii\<rparr>"
  have h: "[97] \<in> set (tasks ?s)" by simp
  have yes: "can_write ?s [97]" by (simp add: can_write_def)
  have no: "\<not> can_write ?s [233]" by (simp add: can_write_def ascii_def)
  from remove_task_total [of "[97]" ?s] remove_task_total [of "[233]" ?s] h yes no
  show ?thesis by blast
qed

text \<open>The claim as worded, that \<open>remove_task\<close> terminates normally on every input, fails
  for the task that is the single code point U+00E9 on an ASCII standard output: the
  element is deleted and \<open>print\<close> raises.\<close>

theorem remove_task_raises_counterexample:
  "remove_task \<lparr>tasks = [[233]], stdout = [], encodes = ascii\<rparr> [233] =
     Inl (UnicodeEncodeError, \<lparr>tasks = [], stdout = [], encodes = ascii\<rparr>)"
  by (simp add: remove_task_def print_def can_write_def ascii_def str_def)

subsection \<open>Showing\<close>

text \<open>
  C5, as the code has it. For every state, \<open>show_tasks\<close> leaves the task sequence as it
  was, whether it returns or raises. When standard output can encode every task, it
  returns, and what it has written is the header followed, for each task in list order,
  by the marker \<open>- \<close>, the task and a line feed; when moreover no task contains a line
  feed, the output read line by line is the header and then one line per task, in list
  order, each line the marker followed by the task. When some task cannot be encoded,
  \<open>print\<close> raises \<open>UnicodeEncodeError\<close> at the first such task, after the header and the
  lines of the tasks before it.
\<close>

theorem show_tasks_pure:
  "tasks (state_of (show_tasks self)) = tasks self \<and>
   (list_all (can_write self) (tasks self) \<longrightarrow>
      show_tasks self =
        Inr (self\<lparr>stdout := stdout self @ str ''Todo List:'' @ [LF] @
               concat (map (\<lambda>t. str ''- '' @ t @ [LF]) (tasks self))\<rparr>) \<and>
      (list_all (\<lambda>t. LF \<notin> set t) (tasks self) \<longrightarrow>
         split_lines (written self (state_of (show_tasks self))) =
           str ''Todo List:'' # map (\<lambda>t. str ''- '' @ t) (tasks self))) \<and>
   (\<not> list_all (can_write self) (tasks self) \<longrightarrow>
      show_tasks self =
        Inl (UnicodeEncodeError,
          self\<lparr>stdout := stdout self @ str ''Todo List:'' @ [LF] @
            concat (map (\<lambda>t. str ''- '' @ t @ [LF])
              (takeWhile (can_write self) (tasks self)))\<rparr>))"
proof -
  have line: "task_line = (\<lambda>t. str ''- '' @ t @ [LF])"
    by (rule ext) (simp add: task_line_def)
  have frame: "tasks (state_of (show_tasks self)) = tasks self"
    by (simp add: show_tasks_eq state_of_simps)
  have returns: "show_tasks self =
        Inr (self\<lparr>stdout := stdout self @ str ''Todo List:'' @ [LF] @
               concat (map (\<lambda>t. str ''- '' @ t @ [LF]) (tasks self))\<rparr>)"
    if "list_all (can_write self) (tasks self)"
    using that by (simp add: show_tasks_eq task_lines_def line)
  have lines: "split_lines (written self (state_of (show_tasks self))) =
           str ''Todo List:'' # map (\<lambda>t. str ''- '' @ t) (tasks self)"
    if "list_all (can_write self) (tasks self)" and "list_all (\<lambda>t. LF \<notin> set t) (tasks self)"
  proof -
    have "written self (state_of (show_tasks self)) =
        str ''Todo List:'' @ [LF] @ task_lines (tasks self)"
      using that(1) by (simp add: show_tasks_eq state_of_simps written_def)
    with split_lines_listing [OF that(2)] show ?thesis by simp
  qed
  have raises: "show_tasks self =
        Inl (UnicodeEncodeError,
          self\<lparr>stdout := stdout self @ str ''Todo List:'' @ [LF] @
            concat (map (\<lambda>t. str ''- '' @ t @ [LF])
              (takeWhile (can_write self) (tasks self)))\<rparr>)"
    if "\<not> list_all (can_write self) (tasks self)"
    using that by (simp add: show_tasks_eq task_lines_def line)
  from frame returns lines raises show ?thesis by blast
qed

theorem show_tasks_pure_witness:
  "list_all (can_write \<lparr>tasks = [[97], [98]], stdout = [120], encodes = utf_8\<rparr>)
     (tasks \<lparr>tasks = [[97], [98]], stdout = [120], encodes = utf_8\<rparr>) \<and>
   list_all (\<lambda>t. LF \<notin> set t) (tasks \<lparr>tasks = [[97], [98]], stdout = [120], encodes = utf_8\<rparr>) \<and>
   show_tasks \<lparr>tasks = [[97], [98]], stdout = [120], encodes = utf_8\<rparr> =
     Inr \<lparr>tasks = [[97], [98]],
          stdout = [120] @ str ''Todo List:'' @ [LF] @ str ''- '' @ [97, LF] @ str ''- '' @ [98, LF],
          encodes = utf_8\<rparr> \<and>
   split_lines (written \<lparr>tasks = [[97], [98]], stdout = [120], encodes = utf_8\<rparr>
       (state_of (show_tasks \<lparr>tasks = [[97], [98]], stdout = [120], encodes = utf_8\<rparr>))) =
     [str ''Todo List:'', str ''- '' @ [97], str ''- '' @ [98]] \<and>
   \<not> list_all (can_write \<lparr>tasks = [[97], [0xD800], [98]], stdout = [], encodes = utf_8\<rparr>)
     (tasks \<lparr>tasks = [[97], [0xD800], [98]], stdout = [], encodes = utf_8\<rparr>) \<and>
   show_tasks \<lparr>tasks = [[97], [0xD800], [98]], stdout = [], encodes = utf_8\<rparr> =
     Inl (UnicodeEncodeError,
       \<lparr>tasks = [[97], [0xD800], [98]],
        stdout = str ''Todo List:'' @ [LF] @ str ''- '' @ [97, LF],
        encodes = utf_8\<rparr>)"
proof -
  let ?s = "\<lparr>tasks = [[97], [98]], stdout = [120], encodes = utf_8\<rparr>"
  let ?r = "\<lparr>tasks = [[97], [0xD800], [98]], stdout = [], encodes = utf_8\<rparr>"
  have yes: "list_all (can_write ?s) (tasks ?s)" by (simp add: can_write_def)
  have one: "list_all (\<lambda>t. LF \<notin> set t) (tasks ?s)" by simp
  have no: "\<not> list_all (can_write ?r) (tasks ?r)" by (simp add: can_write_def utf_8_def)
  have w: "takeWhile (can_write ?r) (tasks ?r) = [[97]]" by (simp add: can_write_def utf_8_def)
  from show_tasks_pure [of ?s] yes one
  have a: "show_tasks ?s =
        Inr (?s\<lparr>stdout := stdout ?s @ str ''Todo List:'' @ [LF] @
               concat (map (\<lambda>t. str ''- '' @ t @ [LF]) (tasks ?s))\<rparr>)"
    and b: "split_lines (written ?s (state_of (show_tasks ?s))) =
        str ''Todo List:'' # map (\<lambda>t. str ''- '' @ t) (tasks ?s)"
    by blast+
  from a have "show_tasks ?s =
     Inr \<lparr>tasks = [[97], [98]],
          stdout = [120] @ str ''Todo List:'' @ [LF] @ str ''- '' @ [97, LF] @ str ''- '' @ [98, LF],
          encodes = utf_8\<rparr>"
    by simp
  moreover from b have "split_lines (written ?s (state_of (show_tasks ?s))) =
     [str ''Todo List:'', str ''- '' @ [97], str ''- '' @ [98]]"
    by simp
  moreover from show_tasks_pure [of ?r] no w
  have "show_tasks ?r =
     Inl (UnicodeEncodeError,
       \<lparr>tasks = [[97], [0xD800], [98]],
        stdout = str ''Todo List:'' @ [LF] @ str ''- '' @ [97, LF],
        encodes = utf_8\<rparr>)"
    by simp
  ultimately show ?thesis using yes one no by blast
qed

text \<open>The claim as worded fails in two ways. On a UTF-8 standard output, with the tasks
  U+D800 and \<open>a\<close>, the loop stops with \<open>UnicodeEncodeError\<close> at the first task and \<open>a\<close> is
  never printed. And the one task that is \<open>a\<close>, a line feed and \<open>b\<close> is printed on two
  lines, the second without the marker.\<close>

theorem show_tasks_one_per_line_counterexample:
  "show_tasks \<lparr>tasks = [[0xD800], [97]], stdout = [], encodes = utf_8\<rparr> =
     Inl (UnicodeEncodeError,
       \<lparr>tasks = [[0xD800], [97]], stdout = str ''Todo List:'' @ [LF], encodes = utf_8\<rparr>) \<and>
   show_tasks \<lparr>tasks = [[97, LF, 98]], stdout = [], encodes = utf_8\<rparr> =
     Inr \<lparr>tasks = [[97, LF, 98]], stdout = str ''Todo List:'' @ [LF] @ str ''- '' @ [97, LF, 98, LF],
          encodes = utf_8\<rparr> \<and>
   split_lines (written \<lparr>tasks = [[97, LF, 98]], stdout = [], encodes = utf_8\<rparr>
       (state_of (show_tasks \<lparr>tasks = [[97, LF, 98]], stdout = [], encodes = utf_8\<rparr>))) =
     [str ''Todo List:'', str ''- '' @ [97], [98]]"
  by (simp add: show_tasks_def and_then_def print_def can_write_def utf_8_def str_def
      state_of_def written_def)

text \<open>
  C6. Two calls of \<open>show_tasks\<close> in a row, with nothing in between, write the same text,
  character for character; this holds whether the calls return or raise. When standard
  output can encode every task, both calls return.
\<close>

theorem show_tasks_twice:
  "\<exists>first second.
     first = state_of (show_tasks self) \<and> second = state_of (show_tasks first) \<and>
     stdout first = stdout self @ written self first \<and>
     stdout second = stdout first @ written first second \<and>
     written self first = written first second \<and>
     (list_all (can_write self) (tasks self) \<longrightarrow>
        show_tasks self = Inr first \<and> show_tasks first = Inr second)"
proof -
  let ?text = "str ''Todo List:'' @ [LF] @ task_lines (takeWhile (can_write self) (tasks self))"
  let ?a = "self\<lparr>stdout := stdout self @ ?text\<rparr>"
  let ?b = "?a\<lparr>stdout := stdout ?a @ ?text\<rparr>"
  have a: "state_of (show_tasks self) = ?a"
    by (rule show_tasks_state)
  have b: "state_of (show_tasks ?a) = ?b"
    by (simp add: show_tasks_state can_write_updates)
  have wa: "written self ?a = ?text" by (rule written_append) simp
  have wb: "written ?a ?b = ?text" by (rule written_append) simp
  have "stdout ?a = stdout self @ written self ?a" unfolding wa by simp
  moreover have "stdout ?b = stdout ?a @ written ?a ?b" unfolding wb by simp
  moreover have "written self ?a = written ?a ?b" unfolding wa wb by (rule refl)
  moreover have "show_tasks self = Inr ?a \<and> show_tasks ?a = Inr ?b"
    if "list_all (can_write self) (tasks self)"
    using that
    by (simp add: show_tasks_eq can_write_updates takeWhile_all)
  ultimately show ?thesis using a b by metis
qed

theorem show_tasks_twice_witness:
  "list_all (can_write \<lparr>tasks = [[97], [98]], stdout = [120], encodes = utf_8\<rparr>)
     (tasks \<lparr>tasks = [[97], [98]], stdout = [120], encodes = utf_8\<rparr>) \<and>
   (\<exists>first second.
      show_tasks \<lparr>tasks = [[97], [98]], stdout = [120], encodes = utf_8\<rparr> = Inr first \<and>
      show_tasks first = Inr second \<and>
      stdout first = [120] @ written \<lparr>tasks = [[97], [98]], stdout = [120], encodes = utf_8\<rparr> first \<and>
      stdout second = stdout first @ written first second \<and>
      written \<lparr>tasks = [[97], [98]], stdout = [120], encodes = utf_8\<rparr> first =
        written first second)"
proof -
  let ?s = "\<lparr>tasks = [[97], [98]], stdout = [120], encodes = utf_8\<rparr>"
  have yes: "list_all (can_write ?s) (tasks ?s)" by (simp add: can_write_def)
  have "stdout ?s = [120]" by simp
  with show_tasks_twice [of ?s] yes show ?thesis by metis
qed

text \<open>
  C10. For every state, what \<open>show_tasks\<close> writes starts with the header line
  \<open>Todo List:\<close>, and the task lines come after it: the lines of all tasks when standard
  output can encode them all (the call then returns), and else the lines of the tasks
  before the first one it cannot encode. On the empty list the call returns and the
  header line is all it writes.
\<close>

theorem show_tasks_header:
  "stdout (state_of (show_tasks self)) = stdout self @ written self (state_of (show_tasks self)) \<and>
   written self (state_of (show_tasks self)) =
     str ''Todo List:'' @ [LF] @ task_lines (takeWhile (can_write self) (tasks self)) \<and>
   (list_all (can_write self) (tasks self) \<longrightarrow>
      (\<exists>self'. show_tasks self = Inr self' \<and>
         stdout self' = stdout self @ written self self' \<and>
         written self self' = str ''Todo List:'' @ [LF] @ task_lines (tasks self))) \<and>
   show_tasks \<lparr>tasks = [], stdout = out, encodes = enc\<rparr> =
     Inr \<lparr>tasks = [], stdout = out @ str ''Todo List:'' @ [LF], encodes = enc\<rparr> \<and>
   written \<lparr>tasks = [], stdout = out, encodes = enc\<rparr>
       \<lparr>tasks = [], stdout = out @ str ''Todo List:'' @ [LF], encodes = enc\<rparr> =
     str ''Todo List:'' @ [LF]"
proof -
  let ?text = "str ''Todo List:'' @ [LF] @ task_lines (takeWhile (can_write self) (tasks self))"
  let ?s = "self\<lparr>stdout := stdout self @ ?text\<rparr>"
  have s: "state_of (show_tasks self) = ?s"
    by (rule show_tasks_state)
  have w: "written self ?s = ?text" by (rule written_append) simp
  have first: "stdout (state_of (show_tasks self)) =
      stdout self @ written self (state_of (show_tasks self))"
    unfolding s w by simp
  have second: "written self (state_of (show_tasks self)) = ?text"
    unfolding s w by (rule refl)
  have third: "\<exists>self'. show_tasks self = Inr self' \<and>
         stdout self' = stdout self @ written self self' \<and>
         written self self' = str ''Todo List:'' @ [LF] @ task_lines (tasks self)"
    if all: "list_all (can_write self) (tasks self)"
  proof -
    let ?t = "self\<lparr>stdout := stdout self @ str ''Todo List:'' @ [LF] @ task_lines (tasks self)\<rparr>"
    have "show_tasks self = Inr ?t" using all by (simp add: show_tasks_eq)
    moreover have wt: "written self ?t = str ''Todo List:'' @ [LF] @ task_lines (tasks self)"
      by (rule written_append) simp
    moreover have "stdout ?t = stdout self @ written self ?t" unfolding wt by simp
    ultimately show ?thesis by blast
  qed
  have fourth: "show_tasks \<lparr>tasks = [], stdout = out, encodes = enc\<rparr> =
      Inr \<lparr>tasks = [], stdout = out @ str ''Todo List:'' @ [LF], encodes = enc\<rparr>"
    by (simp add: show_tasks_eq task_lines_def)
  have fifth: "written \<lparr>tasks = [], stdout = out, encodes = enc\<rparr>
      \<lparr>tasks = [], stdout = out @ str ''Todo List:'' @ [LF], encodes = enc\<rparr> =
      str ''Todo List:'' @ [LF]"
    by (rule written_append) simp
  from first second third fourth fifth show ?thesis by blast
qed

theorem show_tasks_header_witness:
  "list_all (can_write \<lparr>tasks = [[97], [98]], stdout = [120], encodes = ascii\<rparr>)
     (tasks \<lparr>tasks = [[97], [98]], stdout = [120], encodes = ascii\<rparr>) \<and>
   (\<exists>self'. show_tasks \<lparr>tasks = [[97], [98]], stdout = [120], encodes = ascii\<rparr> = Inr self' \<and>
      stdout self' = [120] @ written \<lparr>tasks = [[97], [98]], stdout = [120], encodes = ascii\<rparr> self' \<and>
      written \<lparr>tasks = [[97], [98]], stdout = [120], encodes = ascii\<rparr> self' =
        str ''Todo List:'' @ [LF] @ str ''- '' @ [97, LF] @ str ''- '' @ [98, LF])"
proof -
  let ?s = "\<lparr>tasks = [[97], [98]], stdout = [120], encodes = ascii\<rparr>"
  have yes: "list_all (can_write ?s) (tasks ?s)" by (simp add: can_write_def)
  have "stdout ?s = [120]"
    and "task_lines (tasks ?s) = str ''- '' @ [97, LF] @ str ''- '' @ [98, LF]"
    by (simp_all add: task_lines_def task_line_def)
  with show_tasks_header [of ?s] yes show ?thesis by metis
qed

subsection \<open>The script\<close>

text \<open>
  C7. From the empty list, \<open>add_task\<close> of \<open>Buy groceries\<close> and then of \<open>Pay bills\<close>
  gives the list \<open>[Buy groceries, Pay bills]\<close>, which \<open>show_tasks\<close> lists; the following
  \<open>remove_task\<close> of \<open>Pay bills\<close> gives \<open>[Buy groceries]\<close>, which the second
  \<open>show_tasks\<close> lists. These are the five calls of the script, in its order; every call
  returns, whatever the encoding of standard output, and the script ends in the last of
  these states.
\<close>

theorem main_scenario:
  "\<exists>s1 s2 s3 s4 s5.
     add_task (init enc out) (str ''Buy groceries'') = Inr s1 \<and>
     add_task s1 (str ''Pay bills'') = Inr s2 \<and>
     tasks s2 = [str ''Buy groceries'', str ''Pay bills''] \<and>
     show_tasks s2 = Inr s3 \<and>
     tasks s3 = [str ''Buy groceries'', str ''Pay bills''] \<and>
     written s2 s3 =
       str ''Todo List:'' @ [LF] @ str ''- Buy groceries'' @ [LF] @
       str ''- Pay bills'' @ [LF] \<and>
     remove_task s3 (str ''Pay bills'') = Inr s4 \<and>
     tasks s4 = [str ''Buy groceries''] \<and>
     show_tasks s4 = Inr s5 \<and>
     tasks s5 = [str ''Buy groceries''] \<and>
     written s4 s5 = str ''Todo List:'' @ [LF] @ str ''- Buy groceries'' @ [LF] \<and>
     main enc out = Inr s5 \<and>
     stdout s5 = out @
       str ''Added task: Buy groceries'' @ [LF] @
       str ''Added task: Pay bills'' @ [LF] @
       str ''Todo List:'' @ [LF] @
       str ''- Buy groceries'' @ [LF] @
       str ''- Pay bills'' @ [LF] @
       str ''Removed task: Pay bills'' @ [LF] @
       str ''Todo List:'' @ [LF] @
       str ''- Buy groceries'' @ [LF]"
  by (simp add: main_def and_then_def init_def add_task_def show_tasks_def remove_task_def
      print_def can_write_def str_def written_def)

subsection \<open>Duplicates and order\<close>

text \<open>
  C8. No uniqueness is enforced: when \<open>t\<close> is already in the list, \<open>add_task\<close> still
  appends it, so the list then holds one more copy of \<open>t\<close> and is not duplicate-free.
  Every operation keeps the order of the elements it does not delete: \<open>add_task\<close>
  keeps the old list as the front of the new one, \<open>remove_task\<close> leaves a list obtained
  from the old one by deleting at most one element, the others staying in their order,
  and \<open>show_tasks\<close> leaves the list as it was. All this holds whether the call returns
  or raises in \<open>print\<close>; the calls return when standard output can encode the texts they
  print.
\<close>

theorem duplicates_and_order:
  "(t \<in> set (tasks self) \<longrightarrow>
      tasks (state_of (add_task self t)) = tasks self @ [t] \<and>
      count_list (tasks (state_of (add_task self t))) t = Suc (count_list (tasks self) t) \<and>
      2 \<le> count_list (tasks (state_of (add_task self t))) t \<and>
      \<not> distinct (tasks (state_of (add_task self t)))) \<and>
   prefix (tasks self) (tasks (state_of (add_task self u))) \<and>
   subseq (tasks (state_of (remove_task self u))) (tasks self) \<and>
   length (tasks self) \<le> Suc (length (tasks (state_of (remove_task self u)))) \<and>
   tasks (state_of (show_tasks self)) = tasks self \<and>
   (can_write self u \<longrightarrow>
      (\<exists>self'. add_task self u = Inr self') \<and> (\<exists>self'. remove_task self u = Inr self')) \<and>
   (list_all (can_write self) (tasks self) \<longrightarrow> (\<exists>self'. show_tasks self = Inr self'))"
proof -
  have dup: "tasks (state_of (add_task self t)) = tasks self @ [t] \<and>
      count_list (tasks (state_of (add_task self t))) t = Suc (count_list (tasks self) t) \<and>
      2 \<le> count_list (tasks (state_of (add_task self t))) t \<and>
      \<not> distinct (tasks (state_of (add_task self t)))"
    if "t \<in> set (tasks self)"
  proof -
    from that have "0 < count_list (tasks self) t"
      using count_list_0_iff [of "tasks self" t] by simp
    with that show ?thesis by (simp add: add_task_eq state_of_simps)
  qed
  have add: "prefix (tasks self) (tasks (state_of (add_task self u)))"
    by (simp add: add_task_eq state_of_simps)
  have rem: "subseq (tasks (state_of (remove_task self u))) (tasks self) \<and>
      length (tasks self) \<le> Suc (length (tasks (state_of (remove_task self u))))"
  proof (cases "u \<in> set (tasks self)")
    case True
    from split_list_first [OF True] obtain ys zs
      where d: "tasks self = ys @ u # zs" "u \<notin> set ys"
      by blast
    have "subseq (ys @ zs) (ys @ u # zs)"
      by (auto simp: subseq_append')
    with d(1) show ?thesis by (simp add: remove_task_first [OF d] state_of_simps)
  next
    case False
    then show ?thesis by (simp add: remove_task_missing state_of_simps)
  qed
  have shw: "tasks (state_of (show_tasks self)) = tasks self"
    by (simp add: show_tasks_eq state_of_simps)
  have ret: "(\<exists>self'. add_task self u = Inr self') \<and> (\<exists>self'. remove_task self u = Inr self')"
    if w: "can_write self u"
  proof (cases "u \<in> set (tasks self)")
    case True
    from split_list_first [OF True] obtain ys zs
      where d: "tasks self = ys @ u # zs" "u \<notin> set ys"
      by blast
    from w show ?thesis by (simp add: add_task_eq remove_task_first [OF d])
  next
    case False
    with w show ?thesis by (simp add: add_task_eq remove_task_missing)
  qed
  have ret_show: "\<exists>self'. show_tasks self = Inr self'"
    if "list_all (can_write self) (tasks self)"
    using that by (simp add: show_tasks_eq)
  from dup add rem shw ret ret_show show ?thesis by blast
qed

theorem duplicates_and_order_witness:
  "[97] \<in> set (tasks \<lparr>tasks = [[97], [98]], stdout = [], encodes = utf_8\<rparr>) \<and>
   can_write \<lparr>tasks = [[97], [98]], stdout = [], encodes = utf_8\<rparr> [97] \<and>
   list_all (can_write \<lparr>tasks = [[97], [98]], stdout = [], encodes = utf_8\<rparr>)
     (tasks \<lparr>tasks = [[97], [98]], stdout = [], encodes = utf_8\<rparr>) \<and>
   add_task \<lparr>tasks = [[97], [98]], stdout = [], encodes = utf_8\<rparr> [97] =
     Inr \<lparr>tasks = [[97], [98], [97]], stdout = str ''Added task: '' @ [97, LF],
          encodes = utf_8\<rparr> \<and>
   tasks (state_of (add_task \<lparr>tasks = [[97], [98]], stdout = [], encodes = utf_8\<rparr> [97])) =
     tasks \<lparr>tasks = [[97], [98]], stdout = [], encodes = utf_8\<rparr> @ [[97]] \<and>
   2 \<le> count_list
     (tasks (state_of (add_task \<lparr>tasks = [[97], [98]], stdout = [], encodes = utf_8\<rparr> [97]))) [97] \<and>
   \<not> distinct (tasks (state_of (add_task \<lparr>tasks = [[97], [98]], stdout = [], encodes = utf_8\<rparr> [97]))) \<and>
   (\<exists>self'. remove_task \<lparr>tasks = [[97], [98]], stdout = [], encodes = utf_8\<rparr> [97] = Inr self') \<and>
   (\<exists>self'. show_tasks \<lparr>tasks = [[97], [98]], stdout = [], encodes = utf_8\<rparr> = Inr self')"
proof -
  let ?s = "\<lparr>tasks = [[97], [98]], stdout = [], encodes = utf_8\<rparr>"
  have h: "[97] \<in> set (tasks ?s)" by simp
  have w: "can_write ?s [97]" by (simp add: can_write_def)
  have ws: "list_all (can_write ?s) (tasks ?s)" by (simp add: can_write_def)
  have c: "add_task ?s [97] =
      Inr \<lparr>tasks = [[97], [98], [97]], stdout = str ''Added task: '' @ [97, LF],
           encodes = utf_8\<rparr>"
    by (simp add: add_task_def print_def can_write_def str_def)
  from duplicates_and_order [of "[97]" ?s "[97]"] h w ws c show ?thesis by blast
qed

end
